theory Spec2Isabelle
  imports Main "HOL-Library.Word" "HOL-Library.Sublist"
begin

section \<open>Strings\<close>

text \<open>
  A JavaScript string is a sequence of UTF-16 code units: \<open>.length\<close> counts code
  units and \<open>.slice\<close> cuts between them. A string literal of the source that is plain
  ASCII is written \<open>js ''...''\<close>.
\<close>

type_synonym jsstring = "16 word list"

definition js :: "string \<Rightarrow> jsstring" where
  "js s = map (\<lambda>c. of_nat (of_char c)) s"

section \<open>Data model (page.tsx)\<close>

text \<open>\<^verbatim>\<open>type Note = { id; title; content; updated_at; created_at }\<close>, all strings.\<close>

record Note =
  id' :: jsstring
  title :: jsstring
  content :: jsstring
  updated_at :: jsstring
  created_at :: jsstring

text \<open>
  The form draft \<^verbatim>\<open>{ title: string; content: string }\<close>; its fields are
  \<open>f_title\<close> and \<open>f_content\<close>, apart from those of a note.
\<close>

record form =
  f_title :: jsstring
  f_content :: jsstring

text \<open>\<^verbatim>\<open>type ViewMode = "list" | "edit" | "new"\<close>\<close>

datatype ViewMode = V_list | V_edit | V_new

text \<open>The seven \<^verbatim>\<open>useState\<close> cells of the component \<^verbatim>\<open>Home\<close>.\<close>

record state =
  notes' :: "Note list"
  search :: jsstring
  loading :: bool
  selected :: "Note option"
  view :: ViewMode
  formData :: form
  error :: "jsstring option"

text \<open>The initial values passed to \<^verbatim>\<open>useState\<close>.\<close>

definition init :: state where
  "init = \<lparr>notes' = [], search = [], loading = False, selected = None, view = V_list,
           formData = \<lparr>f_title = [], f_content = []\<rparr>, error = None\<rparr>"

section \<open>The network\<close>

text \<open>
  What a JavaScript call can throw here: an \<^verbatim>\<open>Error\<close> with a message (the
  \<^verbatim>\<open>throw new Error(...)\<close> of the API functions), \<^verbatim>\<open>URIError\<close>
  (\<^verbatim>\<open>encodeURIComponent\<close>), \<^verbatim>\<open>TypeError\<close> (a \<^verbatim>\<open>fetch\<close> that does not reach
  the server) and \<^verbatim>\<open>SyntaxError\<close> (\<^verbatim>\<open>res.json()\<close> on a body that is not JSON).
\<close>

datatype exn = Error jsstring | URIError | TypeError | SyntaxError

datatype http_method = GET | POST | PUT | DELETE

text \<open>
  A request as \<^verbatim>\<open>fetch\<close> receives it. The body is kept as the object that
  \<^verbatim>\<open>JSON.stringify\<close> serialises.
\<close>

record request =
  method' :: http_method
  url :: jsstring
  headers :: "(jsstring \<times> jsstring) list"
  body :: "form option"

text \<open>
  A response: the \<^verbatim>\<open>ok\<close> flag and what \<^verbatim>\<open>res.json()\<close> gives, typed as the
  source's \<^verbatim>\<open>Promise\<close> annotations type it.
\<close>

record 'a response =
  ok :: bool
  json :: "exn + 'a"

text \<open>
  The environment's \<^verbatim>\<open>fetch\<close>: it rejects (\<open>Inl\<close>) or resolves to a response. An
  API function returns the requests it issued, in order, and its result.
\<close>

type_synonym 'a fetch = "request \<Rightarrow> exn + 'a response"

type_synonym 'a io = "request list \<times> (exn + 'a)"

text \<open>
  \<^verbatim>\<open>const BASE_URL = process.env.NEXT_PUBLIC_API_URL || "http://localhost:4000/api"\<close>:
  an unset or empty variable is falsy.
\<close>

definition BASE_URL :: "jsstring option \<Rightarrow> jsstring" where
  "BASE_URL env =
     (case env of
        None \<Rightarrow> js ''http://localhost:4000/api''
      | Some v \<Rightarrow> if v = [] then js ''http://localhost:4000/api'' else v)"

subsection \<open>encodeURIComponent\<close>

text \<open>
  The built-in of the platform (ECMA-262, \<^verbatim>\<open>Encode\<close> with the unreserved set of
  \<^verbatim>\<open>encodeURIComponent\<close>): letters, digits and \<^verbatim>\<open>- _ . ! ~ * ' ( )\<close> are kept, every
  other code point is written as the \<^verbatim>\<open>%XX\<close> escapes of its UTF-8 octets, and a
  surrogate code unit without its partner throws \<^verbatim>\<open>URIError\<close>.
\<close>

definition uriUnescaped :: "16 word \<Rightarrow> bool" where
  "uriUnescaped c =
     (let n = unat c in
        (65 \<le> n \<and> n \<le> 90) \<or> (97 \<le> n \<and> n \<le> 122) \<or> (48 \<le> n \<and> n \<le> 57) \<or>
        n \<in> set [45, 95, 46, 33, 126, 42, 39, 40, 41])"

definition isLeadingSurrogate :: "16 word \<Rightarrow> bool" where
  "isLeadingSurrogate c = (0xD800 \<le> unat c \<and> unat c \<le> 0xDBFF)"

definition isTrailingSurrogate :: "16 word \<Rightarrow> bool" where
  "isTrailingSurrogate c = (0xDC00 \<le> unat c \<and> unat c \<le> 0xDFFF)"

definition utf8 :: "nat \<Rightarrow> nat list" where
  "utf8 cp =
     (if cp < 0x80 then [cp]
      else if cp < 0x800 then [0xC0 + cp div 0x40, 0x80 + cp mod 0x40]
      else if cp < 0x10000 then
        [0xE0 + cp div 0x1000, 0x80 + cp div 0x40 mod 0x40, 0x80 + cp mod 0x40]
      else
        [0xF0 + cp div 0x40000, 0x80 + cp div 0x1000 mod 0x40,
         0x80 + cp div 0x40 mod 0x40, 0x80 + cp mod 0x40])"

definition hexDigit :: "nat \<Rightarrow> 16 word" where
  "hexDigit d = (if d < 10 then of_nat (48 + d) else of_nat (55 + d))"

definition percent :: "nat \<Rightarrow> jsstring" where
  "percent octet = [37, hexDigit (octet div 16), hexDigit (octet mod 16)]"

definition escape :: "nat \<Rightarrow> jsstring" where
  "escape cp = concat (map percent (utf8 cp))"

fun encodeURIComponent :: "jsstring \<Rightarrow> exn + jsstring" where
  "encodeURIComponent [] = Inr []"
| "encodeURIComponent (c # cs) =
     (if uriUnescaped c then
        (case encodeURIComponent cs of Inl x \<Rightarrow> Inl x | Inr r \<Rightarrow> Inr (c # r))
      else if \<not> isLeadingSurrogate c \<and> \<not> isTrailingSurrogate c then
        (case encodeURIComponent cs of
           Inl x \<Rightarrow> Inl x
         | Inr r \<Rightarrow> Inr (escape (unat c) @ r))
      else if isTrailingSurrogate c then Inl URIError
      else
        (case cs of
           [] \<Rightarrow> Inl URIError
         | d # ds \<Rightarrow>
             if \<not> isTrailingSurrogate d then Inl URIError
             else
               (case encodeURIComponent ds of
                  Inl x \<Rightarrow> Inl x
                | Inr r \<Rightarrow>
                    Inr (escape ((unat c - 0xD800) * 0x400 + (unat d - 0xDC00) + 0x10000)
                           @ r))))"

subsection \<open>The four API functions\<close>

text \<open>
  \<^verbatim>\<open>fetchNotes(query = "")\<close>: the URL depends on whether \<^verbatim>\<open>query\<close> is truthy,
  that is, not the empty string.
\<close>

definition fetchNotes :: "jsstring \<Rightarrow> (Note list) fetch \<Rightarrow> jsstring \<Rightarrow> (Note list) io" where
  "fetchNotes base fetch query =
     (case (if query \<noteq> []
            then (case encodeURIComponent query of
                    Inl x \<Rightarrow> Inl x
                  | Inr e \<Rightarrow> Inr (base @ js ''/notes?search='' @ e))
            else Inr (base @ js ''/notes'')) of
        Inl x \<Rightarrow> ([], Inl x)
      | Inr u \<Rightarrow>
          (let rq = \<lparr>method' = GET, url = u, headers = [], body = None\<rparr> in
             (case fetch rq of
                Inl x \<Rightarrow> ([rq], Inl x)
              | Inr res \<Rightarrow>
                  if \<not> ok res then ([rq], Inl (Error (js ''Failed to fetch notes'')))
                  else ([rq], json res))))"

definition createNote :: "jsstring \<Rightarrow> Note fetch \<Rightarrow> form \<Rightarrow> Note io" where
  "createNote base fetch n =
     (let rq = \<lparr>method' = POST, url = base @ js ''/notes'',
                headers = [(js ''Content-Type'', js ''application/json'')],
                body = Some n\<rparr> in
        (case fetch rq of
           Inl x \<Rightarrow> ([rq], Inl x)
         | Inr res \<Rightarrow>
             if \<not> ok res then ([rq], Inl (Error (js ''Failed to create note'')))
             else ([rq], json res)))"

definition updateNote :: "jsstring \<Rightarrow> Note fetch \<Rightarrow> jsstring \<Rightarrow> form \<Rightarrow> Note io" where
  "updateNote base fetch i n =
     (let rq = \<lparr>method' = PUT, url = base @ js ''/notes/'' @ i,
                headers = [(js ''Content-Type'', js ''application/json'')],
                body = Some n\<rparr> in
        (case fetch rq of
           Inl x \<Rightarrow> ([rq], Inl x)
         | Inr res \<Rightarrow>
             if \<not> ok res then ([rq], Inl (Error (js ''Failed to update note'')))
             else ([rq], json res)))"

text \<open>\<^verbatim>\<open>deleteNote\<close> never reads the body of the response.\<close>

definition deleteNote :: "jsstring \<Rightarrow> 'a fetch \<Rightarrow> jsstring \<Rightarrow> unit io" where
  "deleteNote base fetch i =
     (let rq = \<lparr>method' = DELETE, url = base @ js ''/notes/'' @ i,
                headers = [], body = None\<rparr> in
        (case fetch rq of
           Inl x \<Rightarrow> ([rq], Inl x)
         | Inr res \<Rightarrow>
             if \<not> ok res then ([rq], Inl (Error (js ''Failed to delete note'')))
             else ([rq], Inr ())))"

section \<open>The event handlers of Home\<close>

text \<open>
  A handler is run on the state of the render that created it (its closure reads
  \<^verbatim>\<open>view\<close>, \<^verbatim>\<open>selected\<close>, \<^verbatim>\<open>formData\<close> and \<^verbatim>\<open>search\<close> from there) and returns
  the requests it issued and the state once it has settled. The state while its call is
  in flight, after the setters that precede the \<^verbatim>\<open>await\<close>, is given by the
  \<open>_pending\<close> function of the handler.
\<close>

definition reloadNotes_pending :: "state \<Rightarrow> state" where
  "reloadNotes_pending s = s\<lparr>loading := True\<rparr>"

definition reloadNotes :: "jsstring \<Rightarrow> (Note list) fetch \<Rightarrow> jsstring \<Rightarrow> state \<Rightarrow> request list \<times> state" where
  "reloadNotes base fetch txt s =
     (let s1 = reloadNotes_pending s in
        (case fetchNotes base fetch txt of
           (rqs, Inr data) \<Rightarrow> (rqs, s1\<lparr>notes' := data, loading := False\<rparr>)
         | (rqs, Inl x) \<Rightarrow>
             (rqs, s1\<lparr>error := Some (js ''Failed to load notes.''), loading := False\<rparr>)))"

text \<open>The effect \<^verbatim>\<open>useEffect(() => { reloadNotes(); }, [])\<close> of the first render.\<close>

definition initialLoad :: "jsstring \<Rightarrow> (Note list) fetch \<Rightarrow> state \<Rightarrow> request list \<times> state" where
  "initialLoad base fetch s = reloadNotes base fetch [] s"

definition handleSearch :: "jsstring \<Rightarrow> (Note list) fetch \<Rightarrow> state \<Rightarrow> request list \<times> state" where
  "handleSearch base fetch s =
     (case reloadNotes base fetch (search s) s of
        (rqs, s2) \<Rightarrow> (rqs, s2\<lparr>selected := None, view := V_list\<rparr>))"

definition handleSelect :: "Note \<Rightarrow> state \<Rightarrow> state" where
  "handleSelect n s =
     s\<lparr>selected := Some n, formData := \<lparr>f_title = title n, f_content = content n\<rparr>,
       view := V_edit\<rparr>"

definition handleNew :: "state \<Rightarrow> state" where
  "handleNew s =
     s\<lparr>selected := None, formData := \<lparr>f_title = [], f_content = []\<rparr>, view := V_new\<rparr>"

definition handleFormSubmit_pending :: "state \<Rightarrow> state" where
  "handleFormSubmit_pending s = s\<lparr>loading := True, error := None\<rparr>"

definition handleFormSubmit :: "jsstring \<Rightarrow> Note fetch \<Rightarrow> state \<Rightarrow> request list \<times> state" where
  "handleFormSubmit base fetch s =
     (let s1 = handleFormSubmit_pending s in
        (case (view s, selected s) of
           (V_edit, Some sel) \<Rightarrow>
             (case updateNote base fetch (id' sel) (formData s) of
                (rqs, Inr n) \<Rightarrow>
                  (rqs, s1\<lparr>notes' := map (\<lambda>x. if id' x = id' n then n else x) (notes' s1),
                            selected := Some n, loading := False\<rparr>)
              | (rqs, Inl x) \<Rightarrow> (rqs, s1\<lparr>error := Some (js ''Save failed.''), loading := False\<rparr>))
         | (V_new, _) \<Rightarrow>
             (case createNote base fetch (formData s) of
                (rqs, Inr n) \<Rightarrow>
                  (rqs, s1\<lparr>notes' := n # notes' s1, selected := Some n, view := V_edit,
                            loading := False\<rparr>)
              | (rqs, Inl x) \<Rightarrow> (rqs, s1\<lparr>error := Some (js ''Save failed.''), loading := False\<rparr>))
         | _ \<Rightarrow> ([], s1\<lparr>loading := False\<rparr>)))"

definition handleDelete_pending :: "state \<Rightarrow> state" where
  "handleDelete_pending s = s\<lparr>loading := True\<rparr>"

definition handleDelete :: "jsstring \<Rightarrow> 'a fetch \<Rightarrow> state \<Rightarrow> request list \<times> state" where
  "handleDelete base fetch s =
     (case selected s of
        None \<Rightarrow> ([], s)
      | Some sel \<Rightarrow>
          (let s1 = handleDelete_pending s in
             (case deleteNote base fetch (id' sel) of
                (rqs, Inr u) \<Rightarrow>
                  (rqs, s1\<lparr>notes' := filter (\<lambda>n. id' n \<noteq> id' sel) (notes' s1),
                            selected := None, view := V_list, loading := False\<rparr>)
              | (rqs, Inl x) \<Rightarrow>
                  (rqs, s1\<lparr>error := Some (js ''Delete failed.''), loading := False\<rparr>))))"

section \<open>Rendering the cards of the list view\<close>

text \<open>
  The preview of a card:
  \<^verbatim>\<open>n.content.length > 120 ? n.content.slice(0, 120) + ellipsis : n.content\<close>,
  where the string appended is the one character U+2026 (horizontal ellipsis), a single
  code unit.
\<close>

definition ellipsis :: jsstring where
  "ellipsis = [0x2026]"

text \<open>
  \<^verbatim>\<open>String.prototype.slice(start, end)\<close>: a negative index counts from the end, both
  are clamped to the string, and the result is empty when they cross.
\<close>

definition slice :: "jsstring \<Rightarrow> int \<Rightarrow> int \<Rightarrow> jsstring" where
  "slice str start end' =
     (let len = int (length str);
          from = (if start < 0 then max (len + start) 0 else min start len);
          to = (if end' < 0 then max (len + end') 0 else min end' len)
      in take (nat (to - from)) (drop (nat from) str))"

definition cardPreview :: "Note \<Rightarrow> jsstring" where
  "cardPreview n =
     (if length (content n) > 120 then slice (content n) 0 120 @ ellipsis else content n)"

section \<open>Theme configuration (tailwind.config.js)\<close>

text \<open>
  The object assigned to \<^verbatim>\<open>module.exports\<close>; an object literal is the list of its
  keys and values, in the order written. The key \<^verbatim>\<open>content\<close> of the configuration
  is the field \<open>content_globs\<close>.
\<close>

record theme_extend =
  colors :: "(string \<times> string) list"
  fontFamily :: "(string \<times> string list) list"

record theme_t =
  extend' :: theme_extend

record tailwind_config =
  content_globs :: "string list"
  theme :: theme_t
  plugins :: "string list"

definition config :: tailwind_config where
  "config =
     \<lparr>content_globs = [''./src/app/**/*.{js,ts,jsx,tsx}''],
      theme =
        \<lparr>extend' =
           \<lparr>colors =
              [(''primary'', ''#2563eb''),
               (''secondary'', ''#64748b''),
               (''accent'', ''#fde047''),
               (''background'', ''#fff'')],
            fontFamily = [(''sans'', [''system-ui'', ''sans-serif''])]\<rparr>\<rparr>,
      plugins = []\<rparr>"

section \<open>Example data\<close>

text \<open>Three notes, an edited copy of the second, and three ways a server can behave.\<close>

definition noteA :: Note where
  "noteA = \<lparr>id' = js ''1'', title = js ''A'', content = js ''alpha'',
            updated_at = js ''2024-01-05T15:45:00Z'', created_at = js ''2024-01-05T15:45:00Z''\<rparr>"

definition noteB :: Note where
  "noteB = \<lparr>id' = js ''2'', title = js ''B'', content = js ''beta'',
            updated_at = js ''2024-01-06T09:00:00Z'', created_at = js ''2024-01-06T09:00:00Z''\<rparr>"

definition noteC :: Note where
  "noteC = \<lparr>id' = js ''3'', title = js ''C'', content = js ''gamma'',
            updated_at = js ''2024-01-07T09:00:00Z'', created_at = js ''2024-01-07T09:00:00Z''\<rparr>"

definition noteB2 :: Note where
  "noteB2 = \<lparr>id' = js ''2'', title = js ''New Title'', content = js ''beta'',
             updated_at = js ''2024-02-01T10:00:00Z'', created_at = js ''2024-01-06T09:00:00Z''\<rparr>"

text \<open>A server that answers every request with success and the body \<open>v\<close>.\<close>

definition answers :: "'a \<Rightarrow> 'a fetch" where
  "answers v rq = Inr \<lparr>ok = True, json = Inr v\<rparr>"

text \<open>A server that answers every request with an error status and no JSON body.\<close>

definition refuses :: "'a fetch" where
  "refuses rq = Inr \<lparr>ok = False, json = Inl SyntaxError\<rparr>"

text \<open>No server: \<^verbatim>\<open>fetch\<close> rejects.\<close>

definition unreachable :: "'a fetch" where
  "unreachable rq = Inl TypeError"

text \<open>The second note open in the form, its title edited.\<close>

definition editingB :: state where
  "editingB = \<lparr>notes' = [noteA, noteB, noteC], search = [], loading = False,
               selected = Some noteB, view = V_edit,
               formData = \<lparr>f_title = js ''New Title'', f_content = js ''beta''\<rparr>,
               error = None\<rparr>"

text \<open>The form of a new note, filled in, over a collection of two notes.\<close>

definition draftingB :: state where
  "draftingB = \<lparr>notes' = [noteA, noteC], search = [], loading = False,
                selected = None, view = V_new,
                formData = \<lparr>f_title = js ''B'', f_content = js ''beta''\<rparr>,
                error = None\<rparr>"

text \<open>The form in \<open>edit\<close> with no note selected, after a failed save.\<close>

definition editingNothing :: state where
  "editingNothing = \<lparr>notes' = [noteA, noteB, noteC], search = [], loading = False,
               selected = None, view = V_edit,
               formData = \<lparr>f_title = js ''New Title'', f_content = js ''beta''\<rparr>,
               error = Some (js ''Save failed.'')\<rparr>"

text \<open>The second note open in the form, after a failed save.\<close>

definition editingB_failed :: state where
  "editingB_failed = \<lparr>notes' = [noteA, noteB, noteC], search = [], loading = False,
               selected = Some noteB, view = V_edit,
               formData = \<lparr>f_title = js ''New Title'', f_content = js ''beta''\<rparr>,
               error = Some (js ''Save failed.'')\<rparr>"

text \<open>A note of 150 code units, and one of exactly 120.\<close>

definition longNote :: Note where
  "longNote = \<lparr>id' = js ''4'', title = js ''Long'',
               content = replicate 120 0x61 @ replicate 30 0x62,
               updated_at = js ''2024-01-08T09:00:00Z'', created_at = js ''2024-01-08T09:00:00Z''\<rparr>"

definition fullNote :: Note where
  "fullNote = \<lparr>id' = js ''5'', title = js ''Full'',
               content = replicate 120 0x61,
               updated_at = js ''2024-01-09T09:00:00Z'', created_at = js ''2024-01-09T09:00:00Z''\<rparr>"

section \<open>Facts about the example data\<close>

lemma editingB_simps:
  "view editingB = V_edit" "selected editingB = Some noteB"
  "notes' editingB = [noteA, noteB, noteC]"
  "formData editingB = \<lparr>f_title = js ''New Title'', f_content = js ''beta''\<rparr>"
  "error editingB = None" "search editingB = []" "loading editingB = False"
  by (simp_all add: editingB_def)

lemma draftingB_simps:
  "view draftingB = V_new" "selected draftingB = None"
  "notes' draftingB = [noteA, noteC]"
  "formData draftingB = \<lparr>f_title = js ''B'', f_content = js ''beta''\<rparr>"
  "error draftingB = None" "search draftingB = []" "loading draftingB = False"
  by (simp_all add: draftingB_def)

lemma example_ids:
  "id' noteA = js ''1''" "id' noteB = js ''2''" "id' noteC = js ''3''" "id' noteB2 = js ''2''"
  "js ''1'' \<noteq> js ''2''" "js ''1'' \<noteq> js ''3''" "js ''2'' \<noteq> js ''1''"
  "js ''2'' \<noteq> js ''3''" "js ''3'' \<noteq> js ''1''" "js ''3'' \<noteq> js ''2''"
  by (simp_all add: noteA_def noteB_def noteC_def noteB2_def js_def)

section \<open>Creating a note\<close>

text \<open>
  C4. A form submission while the view is \<open>new\<close> whose Create call succeeds with the
  note \<open>n\<close> puts \<open>n\<close> at the front of the collection, in front of the notes that were
  there, selects \<open>n\<close> and switches the view to \<open>edit\<close>.
\<close>

theorem create_success_prepends:
  assumes "view s = V_new"
    and "snd (createNote base fetch (formData s)) = Inr n"
  shows "notes' (snd (handleFormSubmit base fetch s)) = n # notes' s
       \<and> selected (snd (handleFormSubmit base fetch s)) = Some n
       \<and> view (snd (handleFormSubmit base fetch s)) = V_edit"
  using assms
  by (cases "createNote base fetch (formData s)")
     (simp add: handleFormSubmit_def handleFormSubmit_pending_def)

theorem create_success_prepends_witness:
  "view draftingB = V_new
   \<and> snd (createNote (BASE_URL None) (answers noteB) (formData draftingB)) = Inr noteB
   \<and> notes' (snd (handleFormSubmit (BASE_URL None) (answers noteB) draftingB))
       = [noteB, noteA, noteC]
   \<and> selected (snd (handleFormSubmit (BASE_URL None) (answers noteB) draftingB)) = Some noteB
   \<and> view (snd (handleFormSubmit (BASE_URL None) (answers noteB) draftingB)) = V_edit"
proof -
  have v: "view draftingB = V_new"
    by (simp add: draftingB_simps)
  have c: "snd (createNote (BASE_URL None) (answers noteB) (formData draftingB)) = Inr noteB"
    by (simp add: createNote_def answers_def)
  show ?thesis
    using v c create_success_prepends [OF v c] by (simp add: draftingB_simps)
qed

section \<open>Saving an edit\<close>

text \<open>
  C1. A form submission while the view is \<open>edit\<close> and a note is selected calls Update
  with the selected note's id and the form draft. If the call succeeds with the note
  \<open>n\<close>, the collection keeps its length, every position that held a note with the id
  of \<open>n\<close> now holds \<open>n\<close>, every other position holds the note it held before, and the
  selected note is \<open>n\<close>.
\<close>

theorem update_success_replaces:
  assumes "view s = V_edit" and "selected s = Some sel"
    and "snd (updateNote base fetch (id' sel) (formData s)) = Inr n"
  shows "fst (handleFormSubmit base fetch s) =
           [\<lparr>method' = PUT, url = base @ js ''/notes/'' @ id' sel,
             headers = [(js ''Content-Type'', js ''application/json'')],
             body = Some (formData s)\<rparr>]
       \<and> length (notes' (snd (handleFormSubmit base fetch s))) = length (notes' s)
       \<and> (\<forall>i < length (notes' s).
            notes' (snd (handleFormSubmit base fetch s)) ! i =
              (if id' (notes' s ! i) = id' n then n else notes' s ! i))
       \<and> selected (snd (handleFormSubmit base fetch s)) = Some n"
proof -
  obtain rqs where u: "updateNote base fetch (id' sel) (formData s) = (rqs, Inr n)"
    using assms(3) by (cases "updateNote base fetch (id' sel) (formData s)") simp
  have rq: "rqs = [\<lparr>method' = PUT, url = base @ js ''/notes/'' @ id' sel,
             headers = [(js ''Content-Type'', js ''application/json'')],
             body = Some (formData s)\<rparr>]"
    using u by (auto simp: updateNote_def Let_def split: sum.splits if_splits)
  have h: "handleFormSubmit base fetch s =
      (rqs, (handleFormSubmit_pending s)
              \<lparr>notes' := map (\<lambda>x. if id' x = id' n then n else x) (notes' s),
               selected := Some n, loading := False\<rparr>)"
    using assms(1,2) u by (simp add: handleFormSubmit_def handleFormSubmit_pending_def)
  show ?thesis unfolding h using rq by simp
qed

theorem update_success_replaces_witness:
  "view editingB = V_edit \<and> selected editingB = Some noteB
   \<and> snd (updateNote (BASE_URL None) (answers noteB2) (id' noteB) (formData editingB)) = Inr noteB2
   \<and> length (notes' (snd (handleFormSubmit (BASE_URL None) (answers noteB2) editingB))) = 3
   \<and> notes' (snd (handleFormSubmit (BASE_URL None) (answers noteB2) editingB)) ! 0 = noteA
   \<and> notes' (snd (handleFormSubmit (BASE_URL None) (answers noteB2) editingB)) ! 1 = noteB2
   \<and> notes' (snd (handleFormSubmit (BASE_URL None) (answers noteB2) editingB)) ! 2 = noteC
   \<and> selected (snd (handleFormSubmit (BASE_URL None) (answers noteB2) editingB)) = Some noteB2"
proof -
  have v: "view editingB = V_edit" and sl: "selected editingB = Some noteB"
    by (simp_all add: editingB_simps)
  have u: "snd (updateNote (BASE_URL None) (answers noteB2) (id' noteB) (formData editingB))
             = Inr noteB2"
    by (simp add: updateNote_def answers_def)
  note t = update_success_replaces [OF v sl u]
  have a: "\<And>i. i < 3 \<Longrightarrow>
      notes' (snd (handleFormSubmit (BASE_URL None) (answers noteB2) editingB)) ! i =
        (if id' ([noteA, noteB, noteC] ! i) = id' noteB2 then noteB2
         else [noteA, noteB, noteC] ! i)"
    using t by (simp add: editingB_simps)
  have "notes' (snd (handleFormSubmit (BASE_URL None) (answers noteB2) editingB)) ! 0 = noteA"
    using a [of 0] by (simp add: example_ids)
  moreover
  have "notes' (snd (handleFormSubmit (BASE_URL None) (answers noteB2) editingB)) ! 1 = noteB2"
    using a [of 1] by (simp add: example_ids)
  moreover
  have "notes' (snd (handleFormSubmit (BASE_URL None) (answers noteB2) editingB)) ! 2 = noteC"
    using a [of 2] by (simp add: example_ids)
  ultimately show ?thesis
    using v sl u t by (simp add: editingB_simps)
qed

subsection \<open>What a submission in edit does\<close>

lemma updateNote_requests:
  "fst (updateNote base fetch i n) =
     [\<lparr>method' = PUT, url = base @ js ''/notes/'' @ i,
       headers = [(js ''Content-Type'', js ''application/json'')], body = Some n\<rparr>]"
  by (simp add: updateNote_def Let_def split: sum.splits)

lemma handleFormSubmit_edit_fail:
  assumes "view s = V_edit" and "selected s = Some sel"
    and "snd (updateNote base fetch (id' sel) (formData s)) = Inl x"
  shows "snd (handleFormSubmit base fetch s) = s\<lparr>loading := False, error := Some (js ''Save failed.'')\<rparr>"
  using assms
  by (cases "updateNote base fetch (id' sel) (formData s)")
     (simp add: handleFormSubmit_def handleFormSubmit_pending_def)

lemma handleFormSubmit_edit_ok:
  assumes "view s = V_edit" and "selected s = Some sel"
    and "snd (updateNote base fetch (id' sel) (formData s)) = Inr n"
  shows "snd (handleFormSubmit base fetch s) =
           s\<lparr>loading := False, error := None,
             notes' := map (\<lambda>x. if id' x = id' n then n else x) (notes' s),
             selected := Some n\<rparr>"
  using assms
  by (cases "updateNote base fetch (id' sel) (formData s)")
     (simp add: handleFormSubmit_def handleFormSubmit_pending_def)

lemma handleFormSubmit_edit_requests:
  assumes "view s = V_edit" and "selected s = Some sel"
  shows "fst (handleFormSubmit base fetch s) =
           [\<lparr>method' = PUT, url = base @ js ''/notes/'' @ id' sel,
             headers = [(js ''Content-Type'', js ''application/json'')],
             body = Some (formData s)\<rparr>]"
  using assms updateNote_requests [of base fetch "id' sel" "formData s"]
  by (cases "updateNote base fetch (id' sel) (formData s)")
     (auto simp: handleFormSubmit_def Let_def split: sum.splits)

lemma handleFormSubmit_loading:
  "loading (snd (handleFormSubmit base fetch s)) = False"
  by (simp add: handleFormSubmit_def handleFormSubmit_pending_def Let_def
           split: prod.splits sum.splits ViewMode.splits option.splits)

text \<open>
  C2. A form submission clears the error slot and sets the loading flag before its call
  resolves, and the loading flag is reset once it has settled, whatever the outcome. In
  \<open>edit\<close> with a note selected, if the Update call fails, the collection and the
  selected note are what they were and the error slot holds "Save failed."; a retry from
  that state whose Update call succeeds issues the same request, clears the error and
  applies the update.
\<close>

theorem update_failure_isolated:
  "error (handleFormSubmit_pending s) = None
   \<and> loading (handleFormSubmit_pending s) = True
   \<and> loading (snd (handleFormSubmit base fetch s)) = False
   \<and> (\<forall>x. view s = V_edit \<and> selected s = Some sel
            \<and> snd (updateNote base fetch (id' sel) (formData s)) = Inl x \<longrightarrow>
          notes' (snd (handleFormSubmit base fetch s)) = notes' s
        \<and> selected (snd (handleFormSubmit base fetch s)) = selected s
        \<and> error (snd (handleFormSubmit base fetch s)) = Some (js ''Save failed.'')
        \<and> (\<forall>fetch2 n. snd (updateNote base fetch2 (id' sel) (formData s)) = Inr n \<longrightarrow>
              fst (handleFormSubmit base fetch2 (snd (handleFormSubmit base fetch s)))
                = fst (handleFormSubmit base fetch s)
            \<and> error (handleFormSubmit_pending (snd (handleFormSubmit base fetch s))) = None
            \<and> error (snd (handleFormSubmit base fetch2 (snd (handleFormSubmit base fetch s))))
                = None
            \<and> notes' (snd (handleFormSubmit base fetch2 (snd (handleFormSubmit base fetch s))))
                = map (\<lambda>x. if id' x = id' n then n else x) (notes' s)
            \<and> selected (snd (handleFormSubmit base fetch2 (snd (handleFormSubmit base fetch s))))
                = Some n
            \<and> loading (snd (handleFormSubmit base fetch2 (snd (handleFormSubmit base fetch s))))
                = False))"
proof (intro conjI allI impI)
  show "error (handleFormSubmit_pending s) = None" "loading (handleFormSubmit_pending s) = True"
    by (simp_all add: handleFormSubmit_pending_def)
  show "loading (snd (handleFormSubmit base fetch s)) = False"
    by (rule handleFormSubmit_loading)
next
  fix x
  assume a: "view s = V_edit \<and> selected s = Some sel
               \<and> snd (updateNote base fetch (id' sel) (formData s)) = Inl x"
  then have v: "view s = V_edit" and sl: "selected s = Some sel"
    and f: "snd (updateNote base fetch (id' sel) (formData s)) = Inl x"
    by simp_all
  let ?s1 = "snd (handleFormSubmit base fetch s)"
  have s1: "?s1 = s\<lparr>loading := False, error := Some (js ''Save failed.'')\<rparr>"
    by (rule handleFormSubmit_edit_fail [OF v sl f])
  show "notes' ?s1 = notes' s" "selected ?s1 = selected s"
       "error ?s1 = Some (js ''Save failed.'')"
    by (simp_all add: s1)
  fix fetch2 n
  assume ok2: "snd (updateNote base fetch2 (id' sel) (formData s)) = Inr n"
  have v1: "view ?s1 = V_edit" and sel1: "selected ?s1 = Some sel"
    and fd: "formData ?s1 = formData s"
    using v sl by (simp_all add: s1)
  have ok2': "snd (updateNote base fetch2 (id' sel) (formData ?s1)) = Inr n"
    using ok2 fd by simp
  have s2: "snd (handleFormSubmit base fetch2 ?s1) =
     ?s1\<lparr>loading := False, error := None,
             notes' := map (\<lambda>x. if id' x = id' n then n else x) (notes' ?s1),
             selected := Some n\<rparr>"
    by (rule handleFormSubmit_edit_ok [OF v1 sel1 ok2'])
  show "error (handleFormSubmit_pending ?s1) = None"
    by (simp add: handleFormSubmit_pending_def)
  show "error (snd (handleFormSubmit base fetch2 ?s1)) = None"
       "selected (snd (handleFormSubmit base fetch2 ?s1)) = Some n"
       "loading (snd (handleFormSubmit base fetch2 ?s1)) = False"
    by (simp_all add: s2)
  show "notes' (snd (handleFormSubmit base fetch2 ?s1))
          = map (\<lambda>x. if id' x = id' n then n else x) (notes' s)"
    by (simp add: s2) (simp add: s1)
  show "fst (handleFormSubmit base fetch2 ?s1) = fst (handleFormSubmit base fetch s)"
    using handleFormSubmit_edit_requests [OF v1 sel1, of base fetch2]
      handleFormSubmit_edit_requests [OF v sl, of base fetch] fd by simp
qed

theorem update_failure_isolated_witness:
  "view editingB = V_edit \<and> selected editingB = Some noteB
   \<and> snd (updateNote (BASE_URL None) refuses (id' noteB) (formData editingB))
       = Inl (Error (js ''Failed to update note''))
   \<and> notes' (snd (handleFormSubmit (BASE_URL None) refuses editingB)) = [noteA, noteB, noteC]
   \<and> selected (snd (handleFormSubmit (BASE_URL None) refuses editingB)) = Some noteB
   \<and> error (snd (handleFormSubmit (BASE_URL None) refuses editingB)) = Some (js ''Save failed.'')
   \<and> loading (snd (handleFormSubmit (BASE_URL None) refuses editingB)) = False
   \<and> snd (updateNote (BASE_URL None) (answers noteB2) (id' noteB) (formData editingB)) = Inr noteB2
   \<and> error (snd (handleFormSubmit (BASE_URL None) (answers noteB2)
               (snd (handleFormSubmit (BASE_URL None) refuses editingB)))) = None
   \<and> notes' (snd (handleFormSubmit (BASE_URL None) (answers noteB2)
               (snd (handleFormSubmit (BASE_URL None) refuses editingB))))
       = [noteA, noteB2, noteC]
   \<and> selected (snd (handleFormSubmit (BASE_URL None) (answers noteB2)
               (snd (handleFormSubmit (BASE_URL None) refuses editingB)))) = Some noteB2"
proof -
  have v: "view editingB = V_edit" and sl: "selected editingB = Some noteB"
    by (simp_all add: editingB_simps)
  have f: "snd (updateNote (BASE_URL None) refuses (id' noteB) (formData editingB))
             = Inl (Error (js ''Failed to update note''))"
    by (simp add: updateNote_def refuses_def)
  have u: "snd (updateNote (BASE_URL None) (answers noteB2) (id' noteB) (formData editingB))
             = Inr noteB2"
    by (simp add: updateNote_def answers_def)
  note t = update_failure_isolated
    [where s = editingB and base = "BASE_URL None" and fetch = refuses and sel = noteB]
  from t v sl f have t1:
    "notes' (snd (handleFormSubmit (BASE_URL None) refuses editingB)) = notes' editingB"
    "selected (snd (handleFormSubmit (BASE_URL None) refuses editingB)) = selected editingB"
    "error (snd (handleFormSubmit (BASE_URL None) refuses editingB)) = Some (js ''Save failed.'')"
    "loading (snd (handleFormSubmit (BASE_URL None) refuses editingB)) = False"
    by blast+
  from t v sl f u have t2:
    "error (snd (handleFormSubmit (BASE_URL None) (answers noteB2)
               (snd (handleFormSubmit (BASE_URL None) refuses editingB)))) = None"
    "notes' (snd (handleFormSubmit (BASE_URL None) (answers noteB2)
               (snd (handleFormSubmit (BASE_URL None) refuses editingB))))
       = map (\<lambda>x. if id' x = id' noteB2 then noteB2 else x) (notes' editingB)"
    "selected (snd (handleFormSubmit (BASE_URL None) (answers noteB2)
               (snd (handleFormSubmit (BASE_URL None) refuses editingB)))) = Some noteB2"
    by blast+
  show ?thesis
    using v sl f u t1 t2 by (simp add: editingB_simps example_ids)
qed
section \<open>Search and delete\<close>

lemma handleSearch_view:
  "view (snd (handleSearch base fetch s)) = V_list
   \<and> selected (snd (handleSearch base fetch s)) = None"
  by (simp add: handleSearch_def split: prod.splits)

lemma handleDelete_ok:
  assumes "selected s = Some sel" and "snd (deleteNote base fetch (id' sel)) = Inr u"
  shows "snd (handleDelete base fetch s) =
           s\<lparr>loading := False, notes' := filter (\<lambda>n. id' n \<noteq> id' sel) (notes' s),
             selected := None, view := V_list\<rparr>"
  using assms
  by (cases "deleteNote base fetch (id' sel)")
     (simp add: handleDelete_def handleDelete_pending_def)

lemma handleDelete_fail:
  assumes "selected s = Some sel" and "snd (deleteNote base fetch (id' sel)) = Inl x"
  shows "snd (handleDelete base fetch s) =
           s\<lparr>loading := False, error := Some (js ''Delete failed.'')\<rparr>"
  using assms
  by (cases "deleteNote base fetch (id' sel)")
     (simp add: handleDelete_def handleDelete_pending_def)

lemma filter_out_unique:
  assumes "distinct (map f l)" and "a \<in> f ` set l"
  shows "\<exists>xs x ys. l = xs @ x # ys \<and> f x = a \<and> filter (\<lambda>n. f n \<noteq> a) l = xs @ ys"
proof -
  from assms(2) obtain x where "x \<in> set l" and fx: "f x = a" by auto
  then obtain xs ys where l: "l = xs @ x # ys" by (auto dest: split_list)
  from assms(1) have "f x \<notin> f ` set xs" and "f x \<notin> f ` set ys"
    unfolding l by auto
  then have "\<forall>y \<in> set xs \<union> set ys. f y \<noteq> a"
    unfolding fx [symmetric] by (metis Un_iff imageI)
  then have "filter (\<lambda>n. f n \<noteq> a) l = xs @ ys"
    unfolding l using fx by (simp add: filter_id_conv)
  with l fx show ?thesis by blast
qed

text \<open>
  C3 (as amended). The view becomes \<open>list\<close> and the selection is cleared by every search
  submission, whether its List/Search call succeeds or fails, and by a delete whose call
  succeeds.
\<close>

theorem search_or_delete_returns_to_list:
  "view (snd (handleSearch base fetch s)) = V_list
   \<and> selected (snd (handleSearch base fetch s)) = None
   \<and> (selected s = Some sel \<and> snd (deleteNote base fetch2 (id' sel)) = Inr () \<longrightarrow>
        view (snd (handleDelete base fetch2 s)) = V_list
      \<and> selected (snd (handleDelete base fetch2 s)) = None)"
  using handleSearch_view [of base fetch s] handleDelete_ok [of s sel base fetch2 "()"]
  by simp

theorem search_or_delete_returns_to_list_witness:
  "view editingB = V_edit \<and> selected editingB = Some noteB
   \<and> snd (deleteNote (BASE_URL None) (answers ()) (id' noteB)) = Inr ()
   \<and> view (snd (handleSearch (BASE_URL None) (answers [noteA]) editingB)) = V_list
   \<and> selected (snd (handleSearch (BASE_URL None) (answers [noteA]) editingB)) = None
   \<and> view (snd (handleDelete (BASE_URL None) (answers ()) editingB)) = V_list
   \<and> selected (snd (handleDelete (BASE_URL None) (answers ()) editingB)) = None"
proof -
  have sl: "selected editingB = Some noteB"
    by (simp add: editingB_simps)
  have d: "snd (deleteNote (BASE_URL None) (answers ()) (id' noteB)) = Inr ()"
    by (simp add: deleteNote_def answers_def)
  show ?thesis
    using sl d
      search_or_delete_returns_to_list
        [of "BASE_URL None" "answers [noteA]" editingB noteB "answers ()"]
    by (simp add: editingB_simps)
qed

text \<open>
  C3 as stated fails: a search submission whose call fails, made while a note is open in
  \<open>edit\<close>, still ends in view \<open>list\<close> with nothing selected. \<^verbatim>\<open>reloadNotes\<close>
  catches the failure, and \<^verbatim>\<open>handleSearch\<close> goes on to
  \<^verbatim>\<open>setSelected(null); setView("list")\<close>.
\<close>

theorem failed_search_returns_to_list:
  "view editingB = V_edit \<and> selected editingB = Some noteB
   \<and> snd (fetchNotes (BASE_URL None) refuses (search editingB))
       = Inl (Error (js ''Failed to fetch notes''))
   \<and> view (snd (handleSearch (BASE_URL None) refuses editingB)) = V_list
   \<and> selected (snd (handleSearch (BASE_URL None) refuses editingB)) = None"
  by (simp add: editingB_simps fetchNotes_def refuses_def handleSearch_def reloadNotes_def
        reloadNotes_pending_def)

text \<open>
  C5. A delete with the note \<open>sel\<close> selected, when its call succeeds, leaves in the
  collection the notes whose id is not the id of \<open>sel\<close>, in their order; when the ids
  of the collection are distinct and \<open>sel\<close>'s is among them, that is the collection with
  exactly one note, the one with that id, taken out. The selection is cleared and the
  view becomes \<open>list\<close>. When the call fails, the error slot holds "Delete failed." and
  the collection is what it was.
\<close>

theorem delete_removes_selected:
  assumes "selected s = Some sel"
  shows "(snd (deleteNote base fetch (id' sel)) = Inr () \<longrightarrow>
            notes' (snd (handleDelete base fetch s))
              = filter (\<lambda>n. id' n \<noteq> id' sel) (notes' s)
          \<and> subseq (notes' (snd (handleDelete base fetch s))) (notes' s)
          \<and> (\<forall>n. n \<in> set (notes' (snd (handleDelete base fetch s)))
                  \<longleftrightarrow> n \<in> set (notes' s) \<and> id' n \<noteq> id' sel)
          \<and> (distinct (map id' (notes' s)) \<and> id' sel \<in> id' ` set (notes' s) \<longrightarrow>
                (\<exists>xs x ys. notes' s = xs @ x # ys \<and> id' x = id' sel
                   \<and> notes' (snd (handleDelete base fetch s)) = xs @ ys))
          \<and> selected (snd (handleDelete base fetch s)) = None
          \<and> view (snd (handleDelete base fetch s)) = V_list)
       \<and> (\<forall>x. snd (deleteNote base fetch (id' sel)) = Inl x \<longrightarrow>
            error (snd (handleDelete base fetch s)) = Some (js ''Delete failed.'')
          \<and> notes' (snd (handleDelete base fetch s)) = notes' s)"
proof (intro conjI impI allI)
  assume ok: "snd (deleteNote base fetch (id' sel)) = Inr ()"
  note h = handleDelete_ok [OF assms ok]
  show "notes' (snd (handleDelete base fetch s)) = filter (\<lambda>n. id' n \<noteq> id' sel) (notes' s)"
       "selected (snd (handleDelete base fetch s)) = None"
       "view (snd (handleDelete base fetch s)) = V_list"
    by (simp_all add: h)
  show "subseq (notes' (snd (handleDelete base fetch s))) (notes' s)"
    by (simp add: h)
  show "\<And>n. n \<in> set (notes' (snd (handleDelete base fetch s)))
                  \<longleftrightarrow> n \<in> set (notes' s) \<and> id' n \<noteq> id' sel"
    by (simp add: h)
  assume "distinct (map id' (notes' s)) \<and> id' sel \<in> id' ` set (notes' s)"
  then show "\<exists>xs x ys. notes' s = xs @ x # ys \<and> id' x = id' sel
                   \<and> notes' (snd (handleDelete base fetch s)) = xs @ ys"
    using filter_out_unique [of id' "notes' s" "id' sel"] by (simp add: h)
next
  fix x assume f: "snd (deleteNote base fetch (id' sel)) = Inl x"
  note h = handleDelete_fail [OF assms f]
  show "error (snd (handleDelete base fetch s)) = Some (js ''Delete failed.'')"
       "notes' (snd (handleDelete base fetch s)) = notes' s"
    by (simp_all add: h)
qed

theorem delete_removes_selected_witness:
  "selected editingB = Some noteB
   \<and> distinct (map id' (notes' editingB)) \<and> id' noteB \<in> id' ` set (notes' editingB)
   \<and> snd (deleteNote (BASE_URL None) (answers ()) (id' noteB)) = Inr ()
   \<and> notes' (snd (handleDelete (BASE_URL None) (answers ()) editingB)) = [noteA, noteC]
   \<and> selected (snd (handleDelete (BASE_URL None) (answers ()) editingB)) = None
   \<and> view (snd (handleDelete (BASE_URL None) (answers ()) editingB)) = V_list
   \<and> snd (deleteNote (BASE_URL None) (refuses :: unit fetch) (id' noteB))
       = Inl (Error (js ''Failed to delete note''))
   \<and> error (snd (handleDelete (BASE_URL None) (refuses :: unit fetch) editingB))
       = Some (js ''Delete failed.'')
   \<and> notes' (snd (handleDelete (BASE_URL None) (refuses :: unit fetch) editingB))
       = [noteA, noteB, noteC]"
proof -
  have sl: "selected editingB = Some noteB"
    by (simp add: editingB_simps)
  have d: "distinct (map id' (notes' editingB))" "id' noteB \<in> id' ` set (notes' editingB)"
    by (simp_all add: editingB_simps example_ids)
  have ok: "snd (deleteNote (BASE_URL None) (answers ()) (id' noteB)) = Inr ()"
    by (simp add: deleteNote_def answers_def)
  have f: "snd (deleteNote (BASE_URL None) (refuses :: unit fetch) (id' noteB))
             = Inl (Error (js ''Failed to delete note''))"
    by (simp add: deleteNote_def refuses_def)
  from delete_removes_selected [OF sl, of "BASE_URL None" "answers ()"] ok
  have a: "notes' (snd (handleDelete (BASE_URL None) (answers ()) editingB))
             = filter (\<lambda>n. id' n \<noteq> id' noteB) (notes' editingB)"
    "selected (snd (handleDelete (BASE_URL None) (answers ()) editingB)) = None"
    "view (snd (handleDelete (BASE_URL None) (answers ()) editingB)) = V_list"
    by blast+
  from delete_removes_selected [OF sl, of "BASE_URL None" "refuses :: unit fetch"] f
  have b: "error (snd (handleDelete (BASE_URL None) (refuses :: unit fetch) editingB))
             = Some (js ''Delete failed.'')"
    "notes' (snd (handleDelete (BASE_URL None) (refuses :: unit fetch) editingB))
       = notes' editingB"
    by blast+
  show ?thesis
    using sl d ok f a b by (simp add: editingB_simps example_ids)
qed

section \<open>A submission that calls nothing\<close>

text \<open>
  C9. A form submission while the view is \<open>edit\<close> and no note is selected issues no
  request and leaves the collection, the selection, the view and the form draft as they
  were; the error slot is cleared, and the loading flag is set and then reset.
\<close>

theorem submit_edit_without_selection:
  assumes "view s = V_edit" and "selected s = None"
  shows "fst (handleFormSubmit base fetch s) = []
       \<and> notes' (snd (handleFormSubmit base fetch s)) = notes' s
       \<and> selected (snd (handleFormSubmit base fetch s)) = selected s
       \<and> view (snd (handleFormSubmit base fetch s)) = view s
       \<and> formData (snd (handleFormSubmit base fetch s)) = formData s
       \<and> error (handleFormSubmit_pending s) = None
       \<and> error (snd (handleFormSubmit base fetch s)) = None
       \<and> loading (handleFormSubmit_pending s) = True
       \<and> loading (snd (handleFormSubmit base fetch s)) = False"
  using assms by (simp add: handleFormSubmit_def handleFormSubmit_pending_def)

theorem submit_edit_without_selection_witness:
  "view editingNothing = V_edit \<and> selected editingNothing = None
   \<and> error editingNothing = Some (js ''Save failed.'')
   \<and> fst (handleFormSubmit (BASE_URL None) (answers noteB2) editingNothing) = []
   \<and> notes' (snd (handleFormSubmit (BASE_URL None) (answers noteB2) editingNothing))
       = [noteA, noteB, noteC]
   \<and> selected (snd (handleFormSubmit (BASE_URL None) (answers noteB2) editingNothing)) = None
   \<and> view (snd (handleFormSubmit (BASE_URL None) (answers noteB2) editingNothing)) = V_edit
   \<and> error (snd (handleFormSubmit (BASE_URL None) (answers noteB2) editingNothing)) = None
   \<and> loading (handleFormSubmit_pending editingNothing) = True
   \<and> loading (snd (handleFormSubmit (BASE_URL None) (answers noteB2) editingNothing)) = False"
proof -
  have v: "view editingNothing = V_edit" and sl: "selected editingNothing = None"
    by (simp_all add: editingNothing_def)
  show ?thesis
    using v sl submit_edit_without_selection [OF v sl, of "BASE_URL None" "answers noteB2"]
    by (simp add: editingNothing_def)
qed

section \<open>The error slot across a delete\<close>

text \<open>
  C10. A delete does not touch the error slot before its call, nor when the call
  succeeds: the message that was there is still there. A form submission clears the slot
  before its call.
\<close>

theorem delete_keeps_error:
  "error (handleDelete_pending s) = error s
   \<and> (selected s = Some sel \<and> snd (deleteNote base fetch (id' sel)) = Inr () \<longrightarrow>
        error (snd (handleDelete base fetch s)) = error s)
   \<and> error (handleFormSubmit_pending s) = None"
  using handleDelete_ok [of s sel base fetch "()"]
  by (simp add: handleDelete_pending_def handleFormSubmit_pending_def)

theorem delete_keeps_error_witness:
  "selected editingB_failed = Some noteB
   \<and> error editingB_failed = Some (js ''Save failed.'')
   \<and> snd (deleteNote (BASE_URL None) (answers ()) (id' noteB)) = Inr ()
   \<and> error (handleDelete_pending editingB_failed) = Some (js ''Save failed.'')
   \<and> error (snd (handleDelete (BASE_URL None) (answers ()) editingB_failed))
       = Some (js ''Save failed.'')
   \<and> error (handleFormSubmit_pending editingB_failed) = None"
proof -
  have sl: "selected editingB_failed = Some noteB"
    and e: "error editingB_failed = Some (js ''Save failed.'')"
    by (simp_all add: editingB_failed_def)
  have ok: "snd (deleteNote (BASE_URL None) (answers ()) (id' noteB)) = Inr ()"
    by (simp add: deleteNote_def answers_def)
  show ?thesis
    using sl e ok delete_keeps_error [of editingB_failed noteB "BASE_URL None" "answers ()"]
    by simp
qed

section \<open>Listing and searching\<close>

lemma encodeURIComponent_no_surrogates:
  "\<forall>c \<in> set q. \<not> isLeadingSurrogate c \<and> \<not> isTrailingSurrogate c \<Longrightarrow>
     \<exists>e. encodeURIComponent q = Inr e"
  by (induction q) auto

lemma fetchNotes_empty_requests:
  "fst (fetchNotes base fetch []) = [\<lparr>method' = GET, url = base @ js ''/notes'', headers = [], body = None\<rparr>]"
  by (simp add: fetchNotes_def Let_def split: sum.splits)

lemma fetchNotes_query_requests:
  "query \<noteq> [] \<Longrightarrow> encodeURIComponent query = Inr e \<Longrightarrow>
   fst (fetchNotes base fetch query) =
     [\<lparr>method' = GET, url = base @ js ''/notes?search='' @ e, headers = [], body = None\<rparr>]"
  by (simp add: fetchNotes_def Let_def split: sum.splits)

lemma fetchNotes_not_ok:
  "fst (fetchNotes base fetch query) = [rq] \<Longrightarrow> fetch rq = Inr res \<Longrightarrow> \<not> ok res \<Longrightarrow>
   snd (fetchNotes base fetch query) = Inl (Error (js ''Failed to fetch notes''))"
  by (auto simp: fetchNotes_def Let_def split: sum.splits if_splits)

lemma reloadNotes_requests:
  "fst (reloadNotes base fetch txt s) = fst (fetchNotes base fetch txt)"
  by (cases "fetchNotes base fetch txt")
     (simp add: reloadNotes_def Let_def split: sum.splits)

lemma handleSearch_requests:
  "fst (handleSearch base fetch s) = fst (fetchNotes base fetch (search s))"
  using reloadNotes_requests [of base fetch "search s" s]
  by (cases "reloadNotes base fetch (search s) s") (simp add: handleSearch_def)

lemma reloadNotes_notes:
  "snd (fetchNotes base fetch txt) = Inr data \<Longrightarrow>
   notes' (snd (reloadNotes base fetch txt s)) = data"
  by (cases "fetchNotes base fetch txt") (simp add: reloadNotes_def Let_def)

lemma handleSearch_notes:
  "snd (fetchNotes base fetch (search s)) = Inr data \<Longrightarrow>
   notes' (snd (handleSearch base fetch s)) = data"
  using reloadNotes_notes [of base fetch "search s" data s]
  by (cases "reloadNotes base fetch (search s) s") (simp add: handleSearch_def)

lemma encode_a_b:
  "encodeURIComponent (js ''a b'') = Inr (js ''a%20b'')"
  by (simp add: js_def uriUnescaped_def isLeadingSurrogate_def isTrailingSurrogate_def
        escape_def utf8_def percent_def hexDigit_def)

lemma encode_lone:
  "encodeURIComponent [0xD800] = Inl URIError"
  by (simp add: uriUnescaped_def isLeadingSurrogate_def isTrailingSurrogate_def)

text \<open>
  C6 (as amended). List/Search issues GET \<open>{base}/notes\<close> for the empty query, and GET
  \<open>{base}/notes?search={e}\<close> for a non-empty query whose encoding by
  \<^verbatim>\<open>encodeURIComponent\<close> is \<open>e\<close>; for a non-empty query that
  \<^verbatim>\<open>encodeURIComponent\<close> rejects it issues no request and raises what the encoder
  raised. A response that is not a success makes it raise "Failed to fetch notes". A
  search submission with the empty string issues the request of the initial listing, and
  both put the same result into the collection.
\<close>

theorem fetchNotes_target:
  "fst (fetchNotes base fetch []) =
     [\<lparr>method' = GET, url = base @ js ''/notes'', headers = [], body = None\<rparr>]
   \<and> (\<forall>e. query \<noteq> [] \<and> encodeURIComponent query = Inr e \<longrightarrow>
         fst (fetchNotes base fetch query) =
           [\<lparr>method' = GET, url = base @ js ''/notes?search='' @ e, headers = [], body = None\<rparr>])
   \<and> (\<forall>x. query \<noteq> [] \<and> encodeURIComponent query = Inl x \<longrightarrow>
         fetchNotes base fetch query = ([], Inl x))
   \<and> (\<forall>rq res. fst (fetchNotes base fetch query) = [rq] \<and> fetch rq = Inr res \<and> \<not> ok res \<longrightarrow>
         snd (fetchNotes base fetch query) = Inl (Error (js ''Failed to fetch notes'')))
   \<and> (search s = [] \<longrightarrow>
         fst (handleSearch base fetch s) = fst (initialLoad base fetch s0)
       \<and> (\<forall>data. snd (fetchNotes base fetch []) = Inr data \<longrightarrow>
             notes' (snd (handleSearch base fetch s)) = data
           \<and> notes' (snd (initialLoad base fetch s0)) = data))"
proof (intro conjI allI impI)
  show "fst (fetchNotes base fetch []) =
     [\<lparr>method' = GET, url = base @ js ''/notes'', headers = [], body = None\<rparr>]"
    by (rule fetchNotes_empty_requests)
next
  fix e assume "query \<noteq> [] \<and> encodeURIComponent query = Inr e"
  then show "fst (fetchNotes base fetch query) =
           [\<lparr>method' = GET, url = base @ js ''/notes?search='' @ e, headers = [], body = None\<rparr>]"
    by (simp add: fetchNotes_query_requests)
next
  fix x assume "query \<noteq> [] \<and> encodeURIComponent query = Inl x"
  then show "fetchNotes base fetch query = ([], Inl x)"
    by (simp add: fetchNotes_def)
next
  fix rq res
  assume "fst (fetchNotes base fetch query) = [rq] \<and> fetch rq = Inr res \<and> \<not> ok res"
  then show "snd (fetchNotes base fetch query) = Inl (Error (js ''Failed to fetch notes''))"
    using fetchNotes_not_ok by blast
next
  assume e: "search s = []"
  show "fst (handleSearch base fetch s) = fst (initialLoad base fetch s0)"
    using e by (simp add: handleSearch_requests initialLoad_def reloadNotes_requests)
  fix data assume d: "snd (fetchNotes base fetch []) = Inr data"
  show "notes' (snd (handleSearch base fetch s)) = data"
    using e d by (simp add: handleSearch_notes)
  show "notes' (snd (initialLoad base fetch s0)) = data"
    using d by (simp add: initialLoad_def reloadNotes_notes)
qed

theorem fetchNotes_target_witness:
  "js ''a b'' \<noteq> [] \<and> encodeURIComponent (js ''a b'') = Inr (js ''a%20b'')
   \<and> fst (fetchNotes (BASE_URL None) refuses (js ''a b'')) =
       [\<lparr>method' = GET, url = js ''http://localhost:4000/api/notes?search=a%20b'',
         headers = [], body = None\<rparr>]
   \<and> snd (fetchNotes (BASE_URL None) refuses (js ''a b''))
       = Inl (Error (js ''Failed to fetch notes''))
   \<and> fst (fetchNotes (BASE_URL None) (answers [noteA, noteB]) []) =
       [\<lparr>method' = GET, url = js ''http://localhost:4000/api/notes'', headers = [], body = None\<rparr>]
   \<and> search init = []
   \<and> fst (handleSearch (BASE_URL None) (answers [noteA, noteB]) init) =
       [\<lparr>method' = GET, url = js ''http://localhost:4000/api/notes'', headers = [], body = None\<rparr>]
   \<and> fst (initialLoad (BASE_URL None) (answers [noteA, noteB]) init) =
       [\<lparr>method' = GET, url = js ''http://localhost:4000/api/notes'', headers = [], body = None\<rparr>]
   \<and> notes' (snd (handleSearch (BASE_URL None) (answers [noteA, noteB]) init)) = [noteA, noteB]
   \<and> notes' (snd (initialLoad (BASE_URL None) (answers [noteA, noteB]) init)) = [noteA, noteB]
   \<and> encodeURIComponent [0xD800] = Inl URIError
   \<and> fetchNotes (BASE_URL None) (answers [noteA, noteB]) [0xD800] = ([], Inl URIError)"
proof -
  have q: "js ''a b'' \<noteq> []" by (simp add: js_def)
  have b: "BASE_URL None @ js ''/notes?search='' @ js ''a%20b''
             = js ''http://localhost:4000/api/notes?search=a%20b''"
          "BASE_URL None @ js ''/notes'' = js ''http://localhost:4000/api/notes''"
    by (simp_all add: BASE_URL_def js_def)
  note t1 = fetchNotes_target [of "BASE_URL None" refuses "js ''a b''" init init]
  have r1: "fst (fetchNotes (BASE_URL None) refuses (js ''a b'')) =
       [\<lparr>method' = GET, url = js ''http://localhost:4000/api/notes?search=a%20b'',
         headers = [], body = None\<rparr>]"
    using t1 q encode_a_b b by simp
  have r2: "snd (fetchNotes (BASE_URL None) refuses (js ''a b''))
       = Inl (Error (js ''Failed to fetch notes''))"
  proof -
    have "refuses \<lparr>method' = GET, url = js ''http://localhost:4000/api/notes?search=a%20b'',
         headers = [], body = None\<rparr> = Inr \<lparr>ok = False, json = Inl SyntaxError :: exn + Note list\<rparr>"
      by (simp add: refuses_def)
    with t1 r1 show ?thesis by (metis response.select_convs(1))
  qed
  note t2 = fetchNotes_target [of "BASE_URL None" "answers [noteA, noteB]" "[0xD800]" init init]
  have s0: "search init = []" by (simp add: init_def)
  have d: "snd (fetchNotes (BASE_URL None) (answers [noteA, noteB]) []) = Inr [noteA, noteB]"
    by (simp add: fetchNotes_def answers_def)
  have r3: "fst (fetchNotes (BASE_URL None) (answers [noteA, noteB]) []) =
       [\<lparr>method' = GET, url = js ''http://localhost:4000/api/notes'', headers = [], body = None\<rparr>]"
    using t2 b by simp
  have r4: "fetchNotes (BASE_URL None) (answers [noteA, noteB]) [0xD800] = ([], Inl URIError)"
    using t2 encode_lone by simp
  have r5: "fst (handleSearch (BASE_URL None) (answers [noteA, noteB]) init)
              = fst (initialLoad (BASE_URL None) (answers [noteA, noteB]) init)"
    "notes' (snd (handleSearch (BASE_URL None) (answers [noteA, noteB]) init)) = [noteA, noteB]"
    "notes' (snd (initialLoad (BASE_URL None) (answers [noteA, noteB]) init)) = [noteA, noteB]"
    using t2 s0 d by blast+
  have r6: "fst (initialLoad (BASE_URL None) (answers [noteA, noteB]) init) =
       [\<lparr>method' = GET, url = js ''http://localhost:4000/api/notes'', headers = [], body = None\<rparr>]"
    using r3 by (simp add: initialLoad_def reloadNotes_requests)
  show ?thesis
    using q encode_a_b r1 r2 r3 s0 r5 r6 encode_lone r4 by simp
qed

text \<open>
  C6 as stated fails for a non-empty query that has no encoding: for the lone surrogate
  U+D800 no request is issued at all, and what is raised is \<^verbatim>\<open>URIError\<close>.
\<close>

theorem fetchNotes_lone_surrogate:
  "[0xD800 :: 16 word] \<noteq> []
   \<and> fst (fetchNotes (BASE_URL None) (answers [noteA]) [0xD800]) = []
   \<and> snd (fetchNotes (BASE_URL None) (answers [noteA]) [0xD800]) = Inl URIError"
  by (simp add: fetchNotes_def uriUnescaped_def isLeadingSurrogate_def isTrailingSurrogate_def)

section \<open>The preview of a card\<close>

lemma slice_prefix:
  "0 \<le> k \<Longrightarrow> slice str 0 k = take (nat k) str"
  by (simp add: slice_def Let_def min_def)

text \<open>
  C7. In the card of the list view, a content longer than 120 code units is shown as its
  first 120 code units followed by one ellipsis, 121 code units in all; a content of 120
  code units or fewer is shown as it is.
\<close>

theorem cardPreview_truncates:
  "(length (content n) > 120 \<longrightarrow>
      cardPreview n = take 120 (content n) @ ellipsis
    \<and> length (cardPreview n) = 121
    \<and> (\<forall>i < 120. cardPreview n ! i = content n ! i)
    \<and> cardPreview n ! 120 = 0x2026)
   \<and> (length (content n) \<le> 120 \<longrightarrow> cardPreview n = content n)"
  by (simp add: cardPreview_def slice_prefix ellipsis_def nth_append)

theorem cardPreview_truncates_witness:
  "length (content longNote) = 150
   \<and> cardPreview longNote = replicate 120 0x61 @ [0x2026]
   \<and> length (content fullNote) = 120
   \<and> cardPreview fullNote = replicate 120 0x61"
proof -
  have l: "length (content longNote) > 120" "length (content fullNote) \<le> 120"
    by (simp_all add: longNote_def fullNote_def)
  from cardPreview_truncates [of longNote] l(1)
  have a: "cardPreview longNote = take 120 (content longNote) @ ellipsis" by blast
  from cardPreview_truncates [of fullNote] l(2)
  have b: "cardPreview fullNote = content fullNote" by blast
  show ?thesis unfolding a b by (simp add: longNote_def fullNote_def ellipsis_def)
qed

section \<open>The tokens of the theme\<close>

text \<open>
  C8 (as amended). The theme declares exactly the colour tokens \<open>primary\<close>,
  \<open>secondary\<close>, \<open>accent\<close> and \<open>background\<close>, with the values \<open>#2563eb\<close>,
  \<open>#64748b\<close>, \<open>#fde047\<close> and \<open>#fff\<close>, and the one font family token \<open>sans\<close>
  with the list \<open>system-ui\<close>, \<open>sans-serif\<close>.
\<close>

theorem theme_tokens:
  "map fst (colors (extend' (theme config))) = [''primary'', ''secondary'', ''accent'', ''background'']
   \<and> map_of (colors (extend' (theme config))) ''primary'' = Some ''#2563eb''
   \<and> map_of (colors (extend' (theme config))) ''secondary'' = Some ''#64748b''
   \<and> map_of (colors (extend' (theme config))) ''accent'' = Some ''#fde047''
   \<and> map_of (colors (extend' (theme config))) ''background'' = Some ''#fff''
   \<and> map fst (fontFamily (extend' (theme config))) = [''sans'']
   \<and> map_of (fontFamily (extend' (theme config))) ''sans'' = Some [''system-ui'', ''sans-serif'']"
  by (simp add: config_def)

text \<open>
  C8 as stated gives the value of \<open>background\<close> as \<open>#ffffff\<close>; the configuration holds
  the three-digit string \<open>#fff\<close>.
\<close>

theorem theme_background_value:
  "map_of (colors (extend' (theme config))) ''background'' \<noteq> Some ''#ffffff''"
  by (simp add: config_def)

end
